theory Spec2Isabelle
  imports Main "HOL-Library.Word"
begin

unbundle bit_operations_syntax

section \<open>The platform: strings, hexadecimal digests, HMAC-SHA256\<close>

text \<open>
  A JavaScript string is modelled as the list of its code units, restricted to the
  Latin-1 range: the strings that reach the authentication core are cookie headers
  (which Node decodes as Latin-1), hexadecimal tokens and the hexadecimal secret.
\<close>

type_synonym byte = "8 word"
type_synonym u32 = "32 word"

text \<open>\<^verbatim>\<open>s.split(c)\<close> for a one-character separator: one more part than separators.\<close>

fun js_split :: "char \<Rightarrow> string \<Rightarrow> string list" where
  "js_split c [] = [[]]"
| "js_split c (x # xs) =
     (if x = c then [] # js_split c xs
      else (case js_split c xs of p # ps \<Rightarrow> (x # p) # ps | [] \<Rightarrow> [[x]]))"

text \<open>\<^verbatim>\<open>s.trim()\<close>: the white space of ECMAScript that lies in the Latin-1 range.\<close>

definition is_space :: "char \<Rightarrow> bool" where
  "is_space c = (of_char c \<in> {9, 10, 11, 12, 13, 32, 160 :: nat})"

definition trim :: "string \<Rightarrow> string" where
  "trim s = rev (dropWhile is_space (rev (dropWhile is_space s)))"

text \<open>The UTF-8 encoding Node applies to a string handed to \<^verbatim>\<open>createHmac\<close> or \<^verbatim>\<open>update\<close>.\<close>

definition utf8_char :: "char \<Rightarrow> byte list" where
  "utf8_char c =
     (if (of_char c :: nat) < 128 then [of_nat (of_char c)]
      else [of_nat (192 + of_char c div 64), of_nat (128 + of_char c mod 64)])"

definition utf8 :: "string \<Rightarrow> byte list" where
  "utf8 s = concat (map utf8_char s)"

text \<open>\<^verbatim>\<open>.toString('hex')\<close> and \<^verbatim>\<open>.digest('hex')\<close>: two lower-case digits for each byte.\<close>

definition hexdigit :: "nat \<Rightarrow> char" where
  "hexdigit n = ''0123456789abcdef'' ! n"

definition hex_byte :: "byte \<Rightarrow> string" where
  "hex_byte b = [hexdigit (unat b div 16), hexdigit (unat b mod 16)]"

definition hex :: "byte list \<Rightarrow> string" where
  "hex bs = concat (map hex_byte bs)"

subsection \<open>SHA-256 (FIPS 180-4) and HMAC (RFC 2104)\<close>

text \<open>
  Node's \<^verbatim>\<open>crypto\<close> module is not code of this repository; the hash it computes is
  modelled bit for bit from the two standards, on 32-bit words. The round constants and
  the initial hash value are given in decimal.
\<close>

definition rotr :: "nat \<Rightarrow> u32 \<Rightarrow> u32" where
  "rotr n x = drop_bit n x OR push_bit (32 - n) x"

definition Ch :: "u32 \<Rightarrow> u32 \<Rightarrow> u32 \<Rightarrow> u32" where
  "Ch x y z = (x AND y) XOR (NOT x AND z)"

definition Maj :: "u32 \<Rightarrow> u32 \<Rightarrow> u32 \<Rightarrow> u32" where
  "Maj x y z = (x AND y) XOR (x AND z) XOR (y AND z)"

definition bsig0 :: "u32 \<Rightarrow> u32" where
  "bsig0 x = rotr 2 x XOR rotr 13 x XOR rotr 22 x"

definition bsig1 :: "u32 \<Rightarrow> u32" where
  "bsig1 x = rotr 6 x XOR rotr 11 x XOR rotr 25 x"

definition ssig0 :: "u32 \<Rightarrow> u32" where
  "ssig0 x = rotr 7 x XOR rotr 18 x XOR drop_bit 3 x"

definition ssig1 :: "u32 \<Rightarrow> u32" where
  "ssig1 x = rotr 17 x XOR rotr 19 x XOR drop_bit 10 x"

definition K256 :: "u32 list" where
  "K256 = [
   1116352408, 1899447441, 3049323471, 3921009573, 961987163, 1508970993, 2453635748, 2870763221,
   3624381080, 310598401, 607225278, 1426881987, 1925078388, 2162078206, 2614888103, 3248222580,
   3835390401, 4022224774, 264347078, 604807628, 770255983, 1249150122, 1555081692, 1996064986,
   2554220882, 2821834349, 2952996808, 3210313671, 3336571891, 3584528711, 113926993, 338241895,
   666307205, 773529912, 1294757372, 1396182291, 1695183700, 1986661051, 2177026350, 2456956037,
   2730485921, 2820302411, 3259730800, 3345764771, 3516065817, 3600352804, 4094571909, 275423344,
   430227734, 506948616, 659060556, 883997877, 958139571, 1322822218, 1537002063, 1747873779,
   1955562222, 2024104815, 2227730452, 2361852424, 2428436474, 2756734187, 3204031479, 3329325298]"

type_synonym hstate = "u32 \<times> u32 \<times> u32 \<times> u32 \<times> u32 \<times> u32 \<times> u32 \<times> u32"

definition H0 :: hstate where
  "H0 = (1779033703, 3144134277, 1013904242, 2773480762,
         1359893119, 2600822924, 528734635, 1541459225)"

text \<open>One round: \<open>t1\<close> and \<open>t2\<close> are the two temporaries of the standard.\<close>

definition round_out :: "u32 \<Rightarrow> u32 \<Rightarrow> hstate \<Rightarrow> hstate" where
  "round_out t1 t2 = (\<lambda>(a, b, c, d, e, f, g, h). (t1 + t2, a, b, c, d + t1, e, f, g))"

definition round_step :: "u32 \<Rightarrow> u32 \<Rightarrow> hstate \<Rightarrow> hstate" where
  "round_step k w = (\<lambda>(a, b, c, d, e, f, g, h).
     round_out (h + bsig1 e + Ch e f g + k + w) (bsig0 a + Maj a b c) (a, b, c, d, e, f, g, h))"

text \<open>
  The message schedule as a window of sixteen words: round \<open>t\<close> consumes \<open>W\<^sub>t\<close> at the
  front and \<open>W\<^bsub>t+16\<^esub>\<close> enters at the back.
\<close>

definition next_w :: "u32 list \<Rightarrow> u32 list" where
  "next_w ws = tl ws @ [ssig1 (ws ! 14) + ws ! 9 + ssig0 (ws ! 1) + ws ! 0]"

fun rounds :: "u32 list \<Rightarrow> u32 list \<Rightarrow> hstate \<Rightarrow> hstate" where
  "rounds [] ws s = s"
| "rounds (k # ks) ws s = rounds ks (next_w ws) (round_step k (hd ws) s)"

definition be32 :: "byte \<Rightarrow> byte \<Rightarrow> byte \<Rightarrow> byte \<Rightarrow> u32" where
  "be32 a b c d =
     push_bit 24 (ucast a) OR push_bit 16 (ucast b) OR push_bit 8 (ucast c) OR ucast d"

fun words_of :: "byte list \<Rightarrow> u32 list" where
  "words_of (a # b # c # d # r) = be32 a b c d # words_of r"
| "words_of _ = []"

definition add_state :: "hstate \<Rightarrow> hstate \<Rightarrow> hstate" where
  "add_state = (\<lambda>(a, b, c, d, e, f, g, h) (a', b', c', d', e', f', g', h').
     (a + a', b + b', c + c', d + d', e + e', f + f', g + g', h + h'))"

definition compress :: "hstate \<Rightarrow> byte list \<Rightarrow> hstate" where
  "compress hs block = add_state hs (rounds K256 (words_of block) hs)"

fun blocks :: "nat \<Rightarrow> hstate \<Rightarrow> byte list \<Rightarrow> hstate" where
  "blocks 0 hs bs = hs"
| "blocks (Suc n) hs bs = blocks n (compress hs (take 64 bs)) (drop 64 bs)"

definition be_bytes32 :: "u32 \<Rightarrow> byte list" where
  "be_bytes32 w = map (\<lambda>i. ucast (drop_bit i w)) [24, 16, 8, 0]"

definition be_bytes64 :: "64 word \<Rightarrow> byte list" where
  "be_bytes64 w = map (\<lambda>i. ucast (drop_bit i w)) [56, 48, 40, 32, 24, 16, 8, 0]"

definition pad :: "byte list \<Rightarrow> byte list" where
  "pad m = m @ [0x80] @ replicate ((119 - length m mod 64) mod 64) 0
             @ be_bytes64 (of_nat (8 * length m))"

definition digest :: "hstate \<Rightarrow> byte list" where
  "digest = (\<lambda>(a, b, c, d, e, f, g, h). concat (map be_bytes32 [a, b, c, d, e, f, g, h]))"

definition sha256_padded :: "byte list \<Rightarrow> byte list" where
  "sha256_padded p = digest (blocks (length p div 64) H0 p)"

definition sha256 :: "byte list \<Rightarrow> byte list" where
  "sha256 m = sha256_padded (pad m)"

definition hmac_key :: "byte list \<Rightarrow> byte list" where
  "hmac_key key = (if 64 < length key then sha256 key else key)"

definition zero_pad :: "byte list \<Rightarrow> byte list" where
  "zero_pad k = k @ replicate (64 - length k) 0"

definition hmac_block :: "byte list \<Rightarrow> byte list \<Rightarrow> byte list" where
  "hmac_block k msg =
     sha256 (map (\<lambda>b. b XOR 0x5c) k @ sha256 (map (\<lambda>b. b XOR 0x36) k @ msg))"

definition hmac_sha256 :: "byte list \<Rightarrow> byte list \<Rightarrow> byte list" where
  "hmac_sha256 key msg = hmac_block (zero_pad (hmac_key key)) msg"

text \<open>\<^verbatim>\<open>crypto.createHmac('sha256', secret).update(value).digest('hex')\<close>\<close>

definition createHmac_hex :: "string \<Rightarrow> string \<Rightarrow> string" where
  "createHmac_hex secret v = hex (hmac_sha256 (utf8 secret) (utf8 v))"

section \<open>auth.js\<close>

definition SESSION_DURATION :: int where
  "SESSION_DURATION = 7 * 24 * 60 * 60 * 1000"

text \<open>\<^verbatim>\<open>generateSessionToken\<close>: the caller draws the 32 random bytes.\<close>

definition generateSessionToken :: "byte list \<Rightarrow> string" where
  "generateSessionToken randomBytes = hex randomBytes"

definition signCookie :: "string \<Rightarrow> string \<Rightarrow> string" where
  "signCookie v secret = v @ ''.'' @ createHmac_hex secret v"

text \<open>\<^verbatim>\<open>null\<close> is \<open>None\<close>; the empty string is falsy, so the first guard rejects it.\<close>

definition verifyCookie :: "string \<Rightarrow> string \<Rightarrow> string option" where
  "verifyCookie signedValue secret =
     (if signedValue = [] then None
      else let parts = js_split CHR ''.'' signedValue in
        if length parts \<noteq> 2 then None
        else let v = parts ! 0; signature = parts ! 1;
                 expectedSignature = createHmac_hex secret v in
          if signature \<noteq> expectedSignature then None
          else Some v)"

record session =
  createdAt :: int
  expiresAt :: int

text \<open>\<^verbatim>\<open>createSession\<close>: \<open>now\<close> is the reading of \<^verbatim>\<open>Date.now()\<close>, in milliseconds.\<close>

definition createSession :: "byte list \<Rightarrow> int \<Rightarrow> string \<times> session" where
  "createSession randomBytes now =
     (generateSessionToken randomBytes,
      \<lparr>createdAt = now, expiresAt = now + SESSION_DURATION\<rparr>)"

text \<open>
  \<^verbatim>\<open>isSessionValid\<close>: an absent session and a falsy \<^verbatim>\<open>expiresAt\<close> (the number 0) are
  invalid; otherwise the clock decides.
\<close>

definition isSessionValid :: "int \<Rightarrow> session option \<Rightarrow> bool" where
  "isSessionValid now s =
     (case s of None \<Rightarrow> False
      | Some session \<Rightarrow> if expiresAt session = 0 then False else now < expiresAt session)"

section \<open>storage.js\<close>

record credentials =
  username :: string
  passwordHash :: string

record prefs =
  layout :: string
  theme :: string
  accentColor :: string
  backgroundColor :: string
  pageTitle :: string

text \<open>A link is opaque to the persistence and authentication core.\<close>

typedecl link

text \<open>
  The document of \<^verbatim>\<open>data.json\<close>. The sessions object is an association list from
  token to session: \<^verbatim>\<open>sessions[token]\<close> is \<open>map_of\<close>, \<^verbatim>\<open>delete sessions[token]\<close>
  removes the key.
\<close>

record document =
  sessionSecret :: string
  user :: "credentials option"
  preferences :: prefs
  links :: "link list"
  sessions :: "(string \<times> session) list"

definition DEFAULT_PREFERENCES :: prefs where
  "DEFAULT_PREFERENCES =
     \<lparr>layout = ''grid'', theme = ''dark'', accentColor = ''blue'',
      backgroundColor = ''gray'', pageTitle = ''Simple Linkz''\<rparr>"

text \<open>
  \<^verbatim>\<open>{ ...DEFAULT_DATA }\<close> with \<^verbatim>\<open>sessionSecret\<close> set: the \<^verbatim>\<open>null\<close> secret of
  \<^verbatim>\<open>DEFAULT_DATA\<close> is replaced before the document is first written.
\<close>

definition DEFAULT_DATA_with :: "string \<Rightarrow> document" where
  "DEFAULT_DATA_with secret =
     \<lparr>sessionSecret = secret, user = None, preferences = DEFAULT_PREFERENCES,
      links = [], sessions = []\<rparr>"

subsection \<open>The file system\<close>

text \<open>
  A file holds the complete text \<^verbatim>\<open>JSON.stringify(d, null, 2)\<close> of a document \<open>d\<close>, or
  only the first \<open>n\<close> characters of that text, left behind by a write that failed on the
  way. \<^verbatim>\<open>JSON.parse\<close> returns \<open>d\<close> on the complete text and throws on a torn one.
\<close>

datatype file_content = Json document | Torn document nat

type_synonym fs = "string \<rightharpoonup> file_content"

datatype error = ENOENT | SyntaxError | EIO

definition JSON_parse :: "file_content \<Rightarrow> error + document" where
  "JSON_parse c = (case c of Json d \<Rightarrow> Inr d | Torn d n \<Rightarrow> Inl SyntaxError)"

text \<open>
  Where a call of \<^verbatim>\<open>writeData\<close> fails, if it does: \<^verbatim>\<open>fs.writeFile\<close> before it wrote
  anything, \<^verbatim>\<open>fs.writeFile\<close> after \<open>n\<close> characters, or \<^verbatim>\<open>fs.rename\<close>.
\<close>

datatype io_fault = No_fault | WriteFile_fails | WriteFile_fails_after nat | Rename_fails

definition fs_readFile :: "string \<Rightarrow> fs \<Rightarrow> (error + file_content) \<times> fs" where
  "fs_readFile path fs = (case fs path of None \<Rightarrow> (Inl ENOENT, fs) | Some c \<Rightarrow> (Inr c, fs))"

text \<open>
  What fails in the \<^verbatim>\<open>try\<close> block of \<^verbatim>\<open>initializeData\<close>, if anything, for a reason other
  than the absence of the file: \<^verbatim>\<open>fs.mkdir\<close> or \<^verbatim>\<open>fs.access\<close> can reject with an I/O
  error although the data file is there.
\<close>

datatype probe_fault = No_probe_fault | Mkdir_fails | Access_fails

text \<open>Directories are not part of the file map: \<^verbatim>\<open>fs.mkdir\<close> with \<^verbatim>\<open>recursive\<close> leaves
  the files as they are.\<close>

definition fs_mkdir :: "probe_fault \<Rightarrow> string \<Rightarrow> fs \<Rightarrow> (error + unit) \<times> fs" where
  "fs_mkdir probe path fs = (if probe = Mkdir_fails then (Inl EIO, fs) else (Inr (), fs))"

definition fs_access :: "probe_fault \<Rightarrow> string \<Rightarrow> fs \<Rightarrow> (error + unit) \<times> fs" where
  "fs_access probe path fs =
     (case fs path of
        None \<Rightarrow> (Inl ENOENT, fs)
      | Some c \<Rightarrow> if probe = Access_fails then (Inl EIO, fs) else (Inr (), fs))"

definition fs_writeFile :: "io_fault \<Rightarrow> string \<Rightarrow> document \<Rightarrow> fs \<Rightarrow> (error + unit) \<times> fs" where
  "fs_writeFile fault path d fs =
     (case fault of
        WriteFile_fails \<Rightarrow> (Inl EIO, fs)
      | WriteFile_fails_after n \<Rightarrow> (Inl EIO, fs(path \<mapsto> Torn d n))
      | _ \<Rightarrow> (Inr (), fs(path \<mapsto> Json d)))"

text \<open>\<^verbatim>\<open>fs.rename\<close> moves the file in one step, or fails and moves nothing.\<close>

definition fs_rename :: "io_fault \<Rightarrow> string \<Rightarrow> string \<Rightarrow> fs \<Rightarrow> (error + unit) \<times> fs" where
  "fs_rename fault old new fs =
     (case fs old of
        None \<Rightarrow> (Inl ENOENT, fs)
      | Some c \<Rightarrow>
          if fault = Rename_fails then (Inl EIO, fs)
          else (Inr (), (fs(old := None))(new \<mapsto> c)))"

subsection \<open>The functions of storage.js\<close>

definition DATA_DIR :: string where
  "DATA_DIR = ''/data''"

definition DATA_FILE :: string where
  "DATA_FILE = DATA_DIR @ ''/data.json''"

definition readData :: "fs \<Rightarrow> (error + document) \<times> fs" where
  "readData fs =
     (case fs_readFile DATA_FILE fs of
        (Inl e, fs1) \<Rightarrow> (Inl e, fs1)
      | (Inr content, fs1) \<Rightarrow> (JSON_parse content, fs1))"

text \<open>
  \<^verbatim>\<open>writeData\<close>, one call run from its start to its end with no other call in between.
  The function is asynchronous and every call uses the same temporary file; the steps
  of calls that overlap are modelled below, in \<open>writeData_step\<close>.
\<close>

definition writeData :: "io_fault \<Rightarrow> document \<Rightarrow> fs \<Rightarrow> (error + unit) \<times> fs" where
  "writeData fault data fs =
     (let tempFile = DATA_FILE @ ''.tmp'' in
      case fs_writeFile fault tempFile data fs of
        (Inl e, fs1) \<Rightarrow> (Inl e, fs1)
      | (Inr u, fs1) \<Rightarrow> fs_rename fault tempFile DATA_FILE fs1)"

text \<open>
  \<^verbatim>\<open>initializeData\<close>: the \<^verbatim>\<open>catch\<close> handles every error of \<^verbatim>\<open>fs.mkdir\<close> and of
  \<^verbatim>\<open>fs.access\<close>, whatever its cause, by writing the defaults with a fresh secret, the
  hexadecimal form of 32 random bytes. An error of that write leaves the function.
\<close>

definition initializeData ::
  "probe_fault \<Rightarrow> byte list \<Rightarrow> io_fault \<Rightarrow> fs \<Rightarrow> (error + unit) \<times> fs" where
  "initializeData probe randomBytes fault fs =
     (case fs_mkdir probe DATA_DIR fs of
        (Inl e, fs1) \<Rightarrow> writeData fault (DEFAULT_DATA_with (hex randomBytes)) fs1
      | (Inr u, fs1) \<Rightarrow>
          (case fs_access probe DATA_FILE fs1 of
             (Inl e, fs2) \<Rightarrow> writeData fault (DEFAULT_DATA_with (hex randomBytes)) fs2
           | (Inr u', fs2) \<Rightarrow> (Inr (), fs2)))"

definition getUser :: "fs \<Rightarrow> (error + credentials option) \<times> fs" where
  "getUser fs =
     (case readData fs of
        (Inl e, fs1) \<Rightarrow> (Inl e, fs1)
      | (Inr data, fs1) \<Rightarrow> (Inr (user data), fs1))"

text \<open>\<^verbatim>\<open>setUser(null, null)\<close> is \<open>setUser fault None\<close>.\<close>

definition setUser :: "io_fault \<Rightarrow> credentials option \<Rightarrow> fs \<Rightarrow> (error + unit) \<times> fs" where
  "setUser fault u fs =
     (case readData fs of
        (Inl e, fs1) \<Rightarrow> (Inl e, fs1)
      | (Inr data, fs1) \<Rightarrow> writeData fault (data\<lparr>user := u\<rparr>) fs1)"

definition getSessionSecret :: "fs \<Rightarrow> (error + string) \<times> fs" where
  "getSessionSecret fs =
     (case readData fs of
        (Inl e, fs1) \<Rightarrow> (Inl e, fs1)
      | (Inr data, fs1) \<Rightarrow> (Inr (sessionSecret data), fs1))"

definition getSessions :: "fs \<Rightarrow> (error + (string \<times> session) list) \<times> fs" where
  "getSessions fs =
     (case readData fs of
        (Inl e, fs1) \<Rightarrow> (Inl e, fs1)
      | (Inr data, fs1) \<Rightarrow> (Inr (sessions data), fs1))"

definition saveSessions ::
  "io_fault \<Rightarrow> (string \<times> session) list \<Rightarrow> fs \<Rightarrow> (error + unit) \<times> fs" where
  "saveSessions fault ss fs =
     (case readData fs of
        (Inl e, fs1) \<Rightarrow> (Inl e, fs1)
      | (Inr data, fs1) \<Rightarrow> writeData fault (data\<lparr>sessions := ss\<rparr>) fs1)"

subsection \<open>Overlapping calls of writeData\<close>

text \<open>
  A call of \<^verbatim>\<open>writeData\<close> takes three steps, and between two of them other calls may
  take theirs: \<^verbatim>\<open>fs.writeFile\<close> opens the temporary file, which creates it or empties it,
  then writes the text into the file it opened and closes it; \<^verbatim>\<open>fs.rename\<close> then moves
  whatever file has the temporary name onto the data file. No step fails here for a
  reason of its own.

  \<open>Opened p\<close> records under which name the file a call has opened is found now: the
  name changes when another call renames that file, and there is none once the file has
  been replaced. A step that would write into a file that is not empty is outside the
  model (\<open>None\<close>): its outcome depends on the lengths of the two texts.
\<close>

datatype phase = Not_started | Opened "string option" | Written | Finished | Failed error

record wstate =
  files :: fs
  phase :: "nat \<Rightarrow> phase"

definition relink :: "phase \<Rightarrow> phase" where
  "relink ph =
     (case ph of
        Opened (Some p) \<Rightarrow>
          if p = DATA_FILE then Opened None
          else if p = DATA_FILE @ ''.tmp'' then Opened (Some DATA_FILE)
          else ph
      | _ \<Rightarrow> ph)"

text \<open>The next step of call \<open>i\<close>, which writes the document \<open>data i\<close>.\<close>

definition writeData_step :: "(nat \<Rightarrow> document) \<Rightarrow> nat \<Rightarrow> wstate \<Rightarrow> wstate option" where
  "writeData_step data i s =
     (let tempFile = DATA_FILE @ ''.tmp'' in
      case phase s i of
        Not_started \<Rightarrow>
          Some (s\<lparr>files := (files s)(tempFile \<mapsto> Torn (data i) 0),
                  phase := (phase s)(i := Opened (Some tempFile))\<rparr>)
      | Opened None \<Rightarrow> Some (s\<lparr>phase := (phase s)(i := Written)\<rparr>)
      | Opened (Some p) \<Rightarrow>
          (case files s p of
             Some (Torn d n) \<Rightarrow>
               if n = 0
               then Some (s\<lparr>files := (files s)(p \<mapsto> Json (data i)),
                            phase := (phase s)(i := Written)\<rparr>)
               else None
           | _ \<Rightarrow> None)
      | Written \<Rightarrow>
          (case files s tempFile of
             None \<Rightarrow> Some (s\<lparr>phase := (phase s)(i := Failed ENOENT)\<rparr>)
           | Some c \<Rightarrow>
               Some \<lparr>files = ((files s)(tempFile := None))(DATA_FILE \<mapsto> c),
                     phase = (\<lambda>j. relink (phase s j))(i := Finished)\<rparr>)
      | Finished \<Rightarrow> None
      | Failed e \<Rightarrow> None)"

text \<open>A schedule names, step by step, the call that moves next.\<close>

fun run_schedule :: "(nat \<Rightarrow> document) \<Rightarrow> nat list \<Rightarrow> wstate \<Rightarrow> wstate option" where
  "run_schedule data [] s = Some s"
| "run_schedule data (i # sched) s =
     (case writeData_step data i s of
        None \<Rightarrow> None
      | Some s' \<Rightarrow> run_schedule data sched s')"

definition idle :: "fs \<Rightarrow> wstate" where
  "idle fs = \<lparr>files = fs, phase = (\<lambda>i. Not_started)\<rparr>"

section \<open>api.js: the authentication gate and its callers\<close>

record request =
  cookieHeader :: "string option"

datatype body = Success_true | Success_false string | Error string

record response =
  statusCode :: nat
  setCookie :: "string option"
  body :: body

definition COOKIE_NAME :: string where
  "COOKIE_NAME = ''session''"

text \<open>\<^verbatim>\<open>parseCookies\<close>: a later cookie of the same name overwrites an earlier one.\<close>

definition parseCookies :: "request \<Rightarrow> (string \<rightharpoonup> string)" where
  "parseCookies req =
     (case cookieHeader req of
        None \<Rightarrow> Map.empty
      | Some h \<Rightarrow>
          if h = [] then Map.empty
          else foldl (\<lambda>cookies cookie.
                 let parts = js_split CHR ''='' (trim cookie) in
                 if length parts = 2 then cookies(parts ! 0 \<mapsto> parts ! 1) else cookies)
               Map.empty (js_split CHR '';'' h))"

text \<open>
  What \<^verbatim>\<open>isAuthenticated\<close> resolves to: \<^verbatim>\<open>false\<close>, \<^verbatim>\<open>true\<close> or, where the token has no
  entry in the sessions object, \<^verbatim>\<open>undefined\<close> (the left operand of \<^verbatim>\<open>&&\<close>). The
  callers test it with \<^verbatim>\<open>!\<close>. The properties every JavaScript object inherits are not
  modelled: for a token such as \<^verbatim>\<open>constructor\<close> the source finds a function without
  \<^verbatim>\<open>expiresAt\<close> and answers \<^verbatim>\<open>false\<close> where the model answers \<^verbatim>\<open>undefined\<close>; both
  are falsy.
\<close>

datatype verdict = Undefined | Boolean bool

fun truthy :: "verdict \<Rightarrow> bool" where
  "truthy Undefined = False"
| "truthy (Boolean b) = b"

text \<open>
  \<^verbatim>\<open>isAuthenticated\<close> has no \<^verbatim>\<open>try\<close>: an error of the storage layer leaves it as
  \<open>Inl\<close>. The file system is threaded through, \<open>now\<close> is \<^verbatim>\<open>Date.now()\<close>.
\<close>

definition isAuthenticated :: "int \<Rightarrow> request \<Rightarrow> fs \<Rightarrow> (error + verdict) \<times> fs" where
  "isAuthenticated now req fs =
     (case parseCookies req COOKIE_NAME of
        None \<Rightarrow> (Inr (Boolean False), fs)
      | Some signedSession \<Rightarrow>
          if signedSession = [] then (Inr (Boolean False), fs)
          else case getSessionSecret fs of
            (Inl e, fs1) \<Rightarrow> (Inl e, fs1)
          | (Inr secret, fs1) \<Rightarrow>
              (case verifyCookie signedSession secret of
                 None \<Rightarrow> (Inr (Boolean False), fs1)
               | Some token \<Rightarrow>
                   if token = [] then (Inr (Boolean False), fs1)
                   else case getSessions fs1 of
                     (Inl e, fs2) \<Rightarrow> (Inl e, fs2)
                   | (Inr ss, fs2) \<Rightarrow>
                       (case map_of ss token of
                          None \<Rightarrow> (Inr Undefined, fs2)
                        | Some s \<Rightarrow> (Inr (Boolean (isSessionValid now (Some s))), fs2))))"

definition internal_server_error :: response where
  "internal_server_error =
     \<lparr>statusCode = 500, setCookie = None, body = Success_false ''Internal server error''\<rparr>"

definition cookie_cleared :: response where
  "cookie_cleared =
     \<lparr>statusCode = 200,
      setCookie = Some (COOKIE_NAME @ ''=; HttpOnly; SameSite=Lax; Path=/; Max-Age=0''),
      body = Success_true\<rparr>"

definition unauthorized :: response where
  "unauthorized = \<lparr>statusCode = 401, setCookie = None, body = Error ''Unauthorized''\<rparr>"


text \<open>
  \<^verbatim>\<open>handleResetCredentials\<close>: the call of \<^verbatim>\<open>isAuthenticated\<close> stands before the
  \<^verbatim>\<open>try\<close>, so its error leaves the handler; the two writes are inside.
\<close>

definition handleResetCredentials ::
  "io_fault \<Rightarrow> io_fault \<Rightarrow> int \<Rightarrow> request \<Rightarrow> fs \<Rightarrow> (error + response) \<times> fs" where
  "handleResetCredentials fault1 fault2 now req fs =
     (case isAuthenticated now req fs of
        (Inl e, fs1) \<Rightarrow> (Inl e, fs1)
      | (Inr v, fs1) \<Rightarrow>
          if \<not> truthy v then (Inr unauthorized, fs1)
          else case setUser fault1 None fs1 of
            (Inl e, fs2) \<Rightarrow> (Inr internal_server_error, fs2)
          | (Inr u, fs2) \<Rightarrow>
              (case saveSessions fault2 [] fs2 of
                 (Inl e, fs3) \<Rightarrow> (Inr internal_server_error, fs3)
               | (Inr u', fs3) \<Rightarrow> (Inr cookie_cleared, fs3)))"

section \<open>Example inputs\<close>

text \<open>A stored document with an account and one session, and a request that carries the
  cookie \<^verbatim>\<open>signCookie("tok123", "secretA")\<close>.\<close>

definition example_document :: document where
  "example_document =
     \<lparr>sessionSecret = ''secretA'',
      user = Some \<lparr>username = ''admin'', passwordHash = ''$2a$10$N9qo8uLOickgx2ZMRZoMye''\<rparr>,
      preferences = DEFAULT_PREFERENCES, links = [],
      sessions = [(''tok123'', \<lparr>createdAt = 1700000000000, expiresAt = 1700604800000\<rparr>)]\<rparr>"

definition example_fs :: fs where
  "example_fs = [DATA_FILE \<mapsto> Json example_document]"

definition example_request :: request where
  "example_request =
     \<lparr>cookieHeader = Some
        ''session=tok123.572db504aac38c25075e6a8b2bcd93f460783f2a79890940ef3b271491ae69a8''\<rparr>"

text \<open>Two calls of \<^verbatim>\<open>writeData\<close> that overlap: call 0 writes the document without its
  sessions (a logout), call 1 the document without its user (a credential reset).\<close>

definition example_writes :: "nat \<Rightarrow> document" where
  "example_writes i =
     (if i = 0 then example_document\<lparr>sessions := []\<rparr> else example_document\<lparr>user := None\<rparr>)"

definition request_without_cookie :: request where
  "request_without_cookie = \<lparr>cookieHeader = None\<rparr>"

section \<open>Splitting, hexadecimal digits and the cookie signer\<close>

lemma js_split_not_Nil: "js_split c s \<noteq> []"
  by (induction s) (auto split: list.splits)

lemma js_split_no_sep: "c \<notin> set s \<Longrightarrow> js_split c s = [s]"
  by (induction s) auto

lemma js_split_append: "c \<notin> set v \<Longrightarrow> js_split c (v @ c # r) = v # js_split c r"
  by (induction v) auto

lemma length_js_split: "length (js_split c s) = Suc (length (filter (\<lambda>x. x = c) s))"
  by (induction s) (auto split: list.splits simp: js_split_not_Nil)

lemma js_split_first:
  "js_split c s = takeWhile (\<lambda>x. x \<noteq> c) s #
     (if c \<in> set s then js_split c (drop (Suc (length (takeWhile (\<lambda>x. x \<noteq> c) s))) s) else [])"
  by (induction s) (auto split: list.splits simp: js_split_not_Nil)

lemma js_split_single_iff: "js_split c s = [p] \<longleftrightarrow> c \<notin> set s \<and> p = s"
proof
  assume h: "js_split c s = [p]"
  have "length (js_split c s) = 1" using h by simp
  then have "filter (\<lambda>x. x = c) s = []" by (simp add: length_js_split)
  then have "c \<notin> set s" by (auto simp: filter_empty_conv)
  then show "c \<notin> set s \<and> p = s" using h by (simp add: js_split_no_sep)
next
  assume "c \<notin> set s \<and> p = s"
  then show "js_split c s = [p]" by (simp add: js_split_no_sep)
qed

lemma hexdigit_in: "n < 16 \<Longrightarrow> hexdigit n \<in> set ''0123456789abcdef''"
proof -
  assume "n < 16"
  then have "n < length ''0123456789abcdef''" by simp
  then show ?thesis unfolding hexdigit_def by (rule nth_mem)
qed

lemma hex_byte_chars: "set (hex_byte b) \<subseteq> set ''0123456789abcdef''"
proof -
  have "unat b < 256" using unsigned_less [of b, where ?'a = nat] by simp
  then have "unat b div 16 < 16" "unat b mod 16 < 16" by simp_all
  then show ?thesis unfolding hex_byte_def using hexdigit_in by simp
qed

lemma hex_chars: "set (hex bs) \<subseteq> set ''0123456789abcdef''"
  unfolding hex_def using hex_byte_chars by (induction bs) auto

lemma hex_no_dot: "CHR ''.'' \<notin> set (hex bs)"
  using hex_chars [of bs] by auto

lemma createHmac_hex_no_dot: "CHR ''.'' \<notin> set (createHmac_hex secret v)"
  by (simp add: createHmac_hex_def hex_no_dot)

lemma verifyCookie_first_dot:
  "verifyCookie sv secret =
     (if CHR ''.'' \<in> set sv \<and>
         drop (Suc (length (takeWhile (\<lambda>c. c \<noteq> CHR ''.'') sv))) sv
           = createHmac_hex secret (takeWhile (\<lambda>c. c \<noteq> CHR ''.'') sv)
      then Some (takeWhile (\<lambda>c. c \<noteq> CHR ''.'') sv) else None)"
proof (cases "CHR ''.'' \<in> set sv")
  case False
  then show ?thesis by (simp add: verifyCookie_def js_split_no_sep)
next
  case True
  define v where "v = takeWhile (\<lambda>c. c \<noteq> CHR ''.'') sv"
  define r where "r = drop (Suc (length v)) sv"
  have ne: "sv \<noteq> []" using True by auto
  have sp: "js_split CHR ''.'' sv = v # js_split CHR ''.'' r"
    using True js_split_first [of "CHR ''.''" sv] by (simp add: v_def r_def)
  show ?thesis
  proof (cases "r = createHmac_hex secret v")
    case eq: True
    then have "CHR ''.'' \<notin> set r" by (simp add: createHmac_hex_no_dot)
    then have "js_split CHR ''.'' r = [r]" by (rule js_split_no_sep)
    then show ?thesis using sp eq True ne
      by (simp add: verifyCookie_def v_def [symmetric] r_def [symmetric])
  next
    case neq: False
    have "verifyCookie sv secret = None"
    proof (cases "length (js_split CHR ''.'' sv) = 2")
      case False
      then show ?thesis using ne by (simp add: verifyCookie_def)
    next
      case len: True
      then have "length (js_split CHR ''.'' r) = 1" using sp by simp
      then obtain p where p: "js_split CHR ''.'' r = [p]"
        by (cases "js_split CHR ''.'' r") auto
      then have "p = r" by (simp add: js_split_single_iff)
      then show ?thesis using sp p neq ne by (simp add: verifyCookie_def)
    qed
    then show ?thesis using neq True by (simp add: v_def [symmetric] r_def [symmetric])
  qed
qed

lemma verifyCookie_signCookie:
  "CHR ''.'' \<notin> set v \<Longrightarrow> verifyCookie (signCookie v secret) secret = Some v"
  by (simp add: verifyCookie_def signCookie_def js_split_append js_split_no_sep
      createHmac_hex_no_dot)

lemma verifyCookie_Some_iff:
  "verifyCookie sv secret = Some v \<longleftrightarrow> CHR ''.'' \<notin> set v \<and> sv = signCookie v secret"
proof
  assume h: "verifyCookie sv secret = Some v"
  let ?t = "takeWhile (\<lambda>c. c \<noteq> CHR ''.'') sv"
  from h have d: "CHR ''.'' \<in> set sv" and r: "drop (Suc (length ?t)) sv = createHmac_hex secret ?t"
    and v: "v = ?t"
    by (auto simp: verifyCookie_first_dot split: if_splits)
  have "sv = ?t @ dropWhile (\<lambda>c. c \<noteq> CHR ''.'') sv" by simp
  moreover have "dropWhile (\<lambda>c. c \<noteq> CHR ''.'') sv \<noteq> []" using d by auto
  moreover have "hd (dropWhile (\<lambda>c. c \<noteq> CHR ''.'') sv) = CHR ''.''"
    using d hd_dropWhile [of "\<lambda>c. c \<noteq> CHR ''.''" sv] by auto
  ultimately obtain rest where sv: "sv = ?t @ CHR ''.'' # rest"
    by (metis list.collapse)
  have "drop (Suc (length ?t)) sv = rest"
    by (subst sv) simp
  then have "rest = createHmac_hex secret ?t" using r by simp
  moreover have "CHR ''.'' \<notin> set ?t"
    using set_takeWhileD by fastforce
  ultimately show "CHR ''.'' \<notin> set v \<and> sv = signCookie v secret"
    using sv v by (simp add: signCookie_def)
next
  assume "CHR ''.'' \<notin> set v \<and> sv = signCookie v secret"
  then show "verifyCookie sv secret = Some v" by (simp add: verifyCookie_signCookie)
qed

subsection \<open>Three digests, computed\<close>

text \<open>
  The simplifier runs the model of HMAC-SHA256 on three inputs. The rules below keep
  every intermediate word below \<open>2\<^sup>3\<^sup>2\<close>, so that the numerals stay small.
\<close>

lemma blocks_numeral:
  "blocks (numeral n) hs bs = blocks (pred_numeral n) (compress hs (take 64 bs)) (drop 64 bs)"
  by (simp add: numeral_eq_Suc)

lemma replicate_numeral: "replicate (numeral k) x = x # replicate (pred_numeral k) x"
  by (simp add: numeral_eq_Suc)

lemma mask32: "(x :: u32) AND 0xffffffff = x"
proof -
  have "(0xffffffff :: u32) = - 1" by simp
  then show ?thesis by (simp only: word_bw_same word_and_max and.right_neutral bit.conj_one_right)
qed

lemma rotr_eval: "rotr n x = ((drop_bit n x) OR (push_bit (32 - n) x)) AND 0xffffffff"
  by (simp only: mask32 rotr_def)

lemma round_out_eval:
  "round_out t1 t2 = (\<lambda>(a, b, c, d, e, f, g, h).
     ((t1 + t2) AND 0xffffffff, a, b, c, (d + t1) AND 0xffffffff, e, f, g))"
  by (simp only: mask32 round_out_def)

lemma next_w_eval:
  "next_w ws = tl ws @ [(ssig1 (ws ! 14) + ws ! 9 + ssig0 (ws ! 1) + ws ! 0) AND 0xffffffff]"
  by (simp only: mask32 next_w_def)

lemma add_state_eval:
  "add_state = (\<lambda>(a, b, c, d, e, f, g, h) (a', b', c', d', e', f', g', h').
     ((a + a') AND 0xffffffff, (b + b') AND 0xffffffff,
      (c + c') AND 0xffffffff, (d + d') AND 0xffffffff,
      (e + e') AND 0xffffffff, (f + f') AND 0xffffffff,
      (g + g') AND 0xffffffff, (h + h') AND 0xffffffff))"
  by (simp only: mask32 add_state_def)

lemmas sha_eval =
  rotr_eval Ch_def Maj_def bsig0_def bsig1_def ssig0_def ssig1_def K256_def H0_def
  round_out_eval round_step_def next_w_eval add_state_eval be32_def compress_def
  blocks_numeral replicate_numeral be_bytes32_def be_bytes64_def pad_def digest_def
  sha256_padded_def sha256_def hmac_key_def zero_pad_def hmac_block_def hmac_sha256_def
  utf8_char_def utf8_def hexdigit_def hex_byte_def hex_def createHmac_hex_def

lemma hmac_secretA_tok123:
  "createHmac_hex ''secretA'' ''tok123''
     = ''572db504aac38c25075e6a8b2bcd93f460783f2a79890940ef3b271491ae69a8''"
  by (simp add: sha_eval)

lemma hmac_secretB_tok123:
  "createHmac_hex ''secretB'' ''tok123''
     = ''62148a26bd22533b96824227b9ad61db5a86bc8491670be5139474a9148851a8''"
  by (simp add: sha_eval)

lemma hmac_secretA_empty:
  "createHmac_hex ''secretA'' []
     = ''ac9b0762c87c13dbea050ec80640017f854fdf031ff1602601a98ceea606cec7''"
  by (simp add: sha_eval)

text \<open>
  Claim C3. \<^verbatim>\<open>signCookie\<close> returns the value, a \<^verbatim>\<open>.\<close> and the hexadecimal HMAC-SHA256
  of the value under the secret. Verifying \<^verbatim>\<open>signCookie("tok123", "secretA")\<close> under
  \<^verbatim>\<open>"secretA"\<close> returns \<^verbatim>\<open>"tok123"\<close>, under \<^verbatim>\<open>"secretB"\<close> it returns \<^verbatim>\<open>null\<close>, and
  verifying the unsigned \<^verbatim>\<open>"tok123"\<close> returns \<^verbatim>\<open>null\<close>.
\<close>

theorem cookie_signature_integrity:
  "signCookie v secret = v @ ''.'' @ hex (hmac_sha256 (utf8 secret) (utf8 v))
   \<and> signCookie ''tok123'' ''secretA''
       = ''tok123.572db504aac38c25075e6a8b2bcd93f460783f2a79890940ef3b271491ae69a8''
   \<and> verifyCookie (signCookie ''tok123'' ''secretA'') ''secretA'' = Some ''tok123''
   \<and> verifyCookie (signCookie ''tok123'' ''secretA'') ''secretB'' = None
   \<and> verifyCookie ''tok123'' ''secretA'' = None"
proof -
  have 1: "signCookie v secret = v @ ''.'' @ hex (hmac_sha256 (utf8 secret) (utf8 v))"
    by (simp add: signCookie_def createHmac_hex_def)
  have 2: "verifyCookie (signCookie ''tok123'' ''secretA'') ''secretA'' = Some ''tok123''"
    by (rule verifyCookie_signCookie) simp
  have 3: "verifyCookie (signCookie ''tok123'' ''secretA'') ''secretB'' = None"
    by (simp add: verifyCookie_first_dot signCookie_def hmac_secretA_tok123 hmac_secretB_tok123)
  have 4: "verifyCookie ''tok123'' ''secretA'' = None"
    by (simp add: verifyCookie_first_dot)
  have 5: "signCookie ''tok123'' ''secretA''
       = ''tok123.572db504aac38c25075e6a8b2bcd93f460783f2a79890940ef3b271491ae69a8''"
    by (simp add: signCookie_def hmac_secretA_tok123)
  show ?thesis using 1 2 3 4 5 by blast
qed

text \<open>
  Claim C4 as the spec states it asks for \<^verbatim>\<open>null\<close> whenever one of the two parts is
  empty. The source has no such check: the string made of a \<^verbatim>\<open>.\<close> and the digest of the
  empty value splits into an empty first part and the digest, and \<^verbatim>\<open>verifyCookie\<close>
  returns the empty string, not \<^verbatim>\<open>null\<close>.
\<close>

theorem verifyCookie_empty_value_counterexample:
  "js_split CHR ''.'' ''.ac9b0762c87c13dbea050ec80640017f854fdf031ff1602601a98ceea606cec7''
     = ['''', ''ac9b0762c87c13dbea050ec80640017f854fdf031ff1602601a98ceea606cec7'']
   \<and> verifyCookie ''.ac9b0762c87c13dbea050ec80640017f854fdf031ff1602601a98ceea606cec7'' ''secretA''
     = Some ''''"
  by (simp add: verifyCookie_def hmac_secretA_empty)

text \<open>
  Claim C4, amended. \<^verbatim>\<open>verifyCookie\<close> cuts the input at its first \<^verbatim>\<open>.\<close>. It returns
  \<^verbatim>\<open>null\<close> when the input has no \<^verbatim>\<open>.\<close> and when the text after the first \<^verbatim>\<open>.\<close> is
  not the digest of the text before it (so also when there is a second \<^verbatim>\<open>.\<close>, or an
  empty signature); otherwise it returns the text before the first \<^verbatim>\<open>.\<close>, which may
  be empty.
\<close>

theorem verifyCookie_splits_at_first_dot:
  "verifyCookie sv secret =
     (if CHR ''.'' \<in> set sv \<and>
         drop (Suc (length (takeWhile (\<lambda>c. c \<noteq> CHR ''.'') sv))) sv
           = createHmac_hex secret (takeWhile (\<lambda>c. c \<noteq> CHR ''.'') sv)
      then Some (takeWhile (\<lambda>c. c \<noteq> CHR ''.'') sv) else None)"
  by (rule verifyCookie_first_dot)

text \<open>
  Claim C10. For every secret and every value that contains a \<^verbatim>\<open>.\<close>, verifying the
  signed value under the same secret returns \<^verbatim>\<open>null\<close>: \<^verbatim>\<open>signCookie\<close> embeds the
  value unescaped, so the signed string splits into more than two parts.
\<close>

theorem sign_verify_fails_on_separator:
  assumes "CHR ''.'' \<in> set v"
  shows "verifyCookie (signCookie v secret) secret = None"
proof -
  have "filter (\<lambda>x. x = CHR ''.'') v \<noteq> []"
    using assms by (simp add: filter_empty_conv)
  then have "0 < length (filter (\<lambda>x. x = CHR ''.'') v)" by simp
  then have "length (js_split CHR ''.'' (signCookie v secret)) \<noteq> 2"
    by (simp add: signCookie_def length_js_split)
  then show ?thesis by (simp add: verifyCookie_def signCookie_def)
qed

theorem sign_verify_fails_on_separator_witness:
  "CHR ''.'' \<in> set ''a.b'' \<and> verifyCookie (signCookie ''a.b'' ''secretA'') ''secretA'' = None"
  using sign_verify_fails_on_separator [of "''a.b''" "''secretA''"] by simp

section \<open>Sessions\<close>

text \<open>
  Claim C5. A session made by \<^verbatim>\<open>createSession\<close> at the clock reading \<open>T\<close> expires at
  \<open>createdAt + 604800000\<close>; it is valid exactly at the times strictly before
  \<open>expiresAt\<close>: valid one millisecond before \<open>T\<close> plus seven days, invalid at
  \<open>T\<close> plus seven days. \<^verbatim>\<open>Date.now()\<close> counts the milliseconds since the epoch, whence
  \<open>0 \<le> T\<close>.
\<close>

theorem session_lifetime_and_expiry:
  assumes "0 \<le> T"
  shows "createdAt (snd (createSession r T)) = T
    \<and> expiresAt (snd (createSession r T)) = createdAt (snd (createSession r T)) + 604800000
    \<and> (isSessionValid t (Some (snd (createSession r T)))
          \<longleftrightarrow> t < expiresAt (snd (createSession r T)))
    \<and> isSessionValid (T + 604800000 - 1) (Some (snd (createSession r T)))
    \<and> \<not> isSessionValid (T + 604800000) (Some (snd (createSession r T)))"
  using assms by (simp add: createSession_def isSessionValid_def SESSION_DURATION_def)

theorem session_lifetime_and_expiry_witness:
  "(0::int) \<le> 1700000000000
   \<and> expiresAt (snd (createSession [] 1700000000000)) = 1700604800000
   \<and> isSessionValid 1700604799999 (Some (snd (createSession [] 1700000000000)))
   \<and> \<not> isSessionValid 1700604800000 (Some (snd (createSession [] 1700000000000)))"
  using session_lifetime_and_expiry [of 1700000000000 "[]" 0] by simp

section \<open>The document store\<close>

lemma tempFile_neq: "DATA_FILE @ ''.tmp'' \<noteq> DATA_FILE"
  by simp

lemma readData_cases:
  "readData fs =
     (case fs DATA_FILE of
        None \<Rightarrow> (Inl ENOENT, fs)
      | Some (Json d) \<Rightarrow> (Inr d, fs)
      | Some (Torn d n) \<Rightarrow> (Inl SyntaxError, fs))"
  by (simp add: readData_def fs_readFile_def JSON_parse_def split: option.splits file_content.splits)

lemma snd_readData: "snd (readData fs) = fs"
  by (simp add: readData_cases split: option.splits file_content.splits)

lemma readData_Inr_iff: "fst (readData fs) = Inr d \<longleftrightarrow> fs DATA_FILE = Some (Json d)"
  by (simp add: readData_cases split: option.splits file_content.splits)

lemma fst_readData_cong: "fs' DATA_FILE = fs DATA_FILE \<Longrightarrow> fst (readData fs') = fst (readData fs)"
  by (simp add: readData_cases split: option.splits file_content.splits)

lemma writeData_cases:
  "writeData fault data fs =
     (case fault of
        No_fault \<Rightarrow> (Inr (), (fs(DATA_FILE @ ''.tmp'' := None))(DATA_FILE \<mapsto> Json data))
      | WriteFile_fails \<Rightarrow> (Inl EIO, fs)
      | WriteFile_fails_after n \<Rightarrow> (Inl EIO, fs(DATA_FILE @ ''.tmp'' \<mapsto> Torn data n))
      | Rename_fails \<Rightarrow> (Inl EIO, fs(DATA_FILE @ ''.tmp'' \<mapsto> Json data)))"
  by (cases fault) (simp_all add: writeData_def fs_writeFile_def fs_rename_def)

text \<open>
  A call of \<^verbatim>\<open>writeData\<close> that runs alone is atomic with respect to failure: it succeeds
  exactly when no step fails, a successful write leaves the new document in the data
  file, and at every failure point the data file, and with it what \<^verbatim>\<open>readData\<close>
  returns, is what it was before the write.
\<close>

theorem writeData_atomic_in_isolation:
  "(fst (writeData fault data fs) = Inr () \<longleftrightarrow> fault = No_fault)
   \<and> (fault = No_fault \<longrightarrow>
        snd (writeData fault data fs) DATA_FILE = Some (Json data)
        \<and> fst (readData (snd (writeData fault data fs))) = Inr data)
   \<and> (fault \<noteq> No_fault \<longrightarrow>
        snd (writeData fault data fs) DATA_FILE = fs DATA_FILE
        \<and> fst (readData (snd (writeData fault data fs))) = fst (readData fs))
   \<and> (snd (writeData fault data fs) DATA_FILE = fs DATA_FILE
        \<or> snd (writeData fault data fs) DATA_FILE = Some (Json data))"
proof (cases fault)
  case No_fault
  then show ?thesis by (simp add: writeData_cases readData_cases)
next
  case WriteFile_fails
  then show ?thesis by (simp add: writeData_cases)
next
  case (WriteFile_fails_after n)
  have "(fs(DATA_FILE @ ''.tmp'' \<mapsto> Torn data n)) DATA_FILE = fs DATA_FILE"
    using tempFile_neq by (simp del: append_eq_conv_conj)
  then show ?thesis using WriteFile_fails_after fst_readData_cong [of "fs(DATA_FILE @ ''.tmp'' \<mapsto> Torn data n)" fs]
    by (simp add: writeData_cases)
next
  case Rename_fails
  have "(fs(DATA_FILE @ ''.tmp'' \<mapsto> Json data)) DATA_FILE = fs DATA_FILE"
    using tempFile_neq by (simp del: append_eq_conv_conj)
  then show ?thesis using Rename_fails fst_readData_cong [of "fs(DATA_FILE @ ''.tmp'' \<mapsto> Json data)" fs]
    by (simp add: writeData_cases)
qed

text \<open>The three steps of a call that runs alone are the call of \<open>writeData\<close> without a
  failure.\<close>

lemma run_schedule_alone:
  "\<exists>s. run_schedule data [i, i, i] (idle fs) = Some s
       \<and> files s = snd (writeData No_fault (data i) fs)
       \<and> phase s i = Finished"
  by (simp add: idle_def writeData_step_def writeData_cases Let_def)

text \<open>
  Claim C2. The claim asks that a successful write replaces the stored document entirely
  and that a reader only ever finds the old or the new document. Two calls that overlap
  break it without any I/O failure, because they share the temporary file. Call 0 opens
  and writes it, call 1 opens and so empties it, call 0 renames it: call 0 has finished
  without an error, and the data file is the empty file of call 1, which \<^verbatim>\<open>readData\<close>
  cannot parse; it is neither the document stored before nor the document of call 0.
  When call 1 goes on, its text lands in the data file and its own \<^verbatim>\<open>fs.rename\<close> fails
  with \<^verbatim>\<open>ENOENT\<close>.
\<close>

theorem overlapping_writes_break_atomicity:
  "fst (readData example_fs) = Inr example_document
   \<and> map_option (\<lambda>s. (phase s 0, phase s 1, files s DATA_FILE))
        (run_schedule example_writes [0, 0, 1, 0] (idle example_fs))
       = Some (Finished, Opened (Some DATA_FILE), Some (Torn (example_writes 1) 0))
   \<and> map_option (\<lambda>s. fst (readData (files s)))
        (run_schedule example_writes [0, 0, 1, 0] (idle example_fs)) = Some (Inl SyntaxError)
   \<and> map_option (\<lambda>s. (phase s 0, phase s 1, files s DATA_FILE))
        (run_schedule example_writes [0, 0, 1, 0, 1, 1] (idle example_fs))
       = Some (Finished, Failed ENOENT, Some (Json (example_writes 1)))"
proof -
  have a: "fst (readData example_fs) = Inr example_document"
    by (simp add: readData_cases example_fs_def)
  have t: "DATA_FILE \<noteq> DATA_FILE @ ''.tmp''" by simp
  have b: "run_schedule example_writes [0, 0, 1, 0] (idle example_fs)
      = Some \<lparr>files = [DATA_FILE \<mapsto> Torn (example_writes 1) 0],
              phase = (\<lambda>j. Not_started)(1 := Opened (Some DATA_FILE), 0 := Finished)\<rparr>"
    using t
    by (simp add: idle_def writeData_step_def relink_def example_fs_def Let_def fun_upd_twist
        del: append_eq_conv_conj)
       (auto simp: fun_eq_iff relink_def)
  have c: "run_schedule example_writes [0, 0, 1, 0, 1, 1] (idle example_fs)
      = Some \<lparr>files = [DATA_FILE \<mapsto> Json (example_writes 1)],
              phase = (\<lambda>j. Not_started)(0 := Finished, 1 := Failed ENOENT)\<rparr>"
    using t
    by (simp add: idle_def writeData_step_def relink_def example_fs_def Let_def fun_upd_twist
        del: append_eq_conv_conj)
       (auto simp: fun_eq_iff relink_def)
  have 1: "map_option (\<lambda>s. (phase s 0, phase s 1, files s DATA_FILE))
        (run_schedule example_writes [0, 0, 1, 0] (idle example_fs))
       = Some (Finished, Opened (Some DATA_FILE), Some (Torn (example_writes 1) 0))"
    by (simp only: b) simp
  have 2: "map_option (\<lambda>s. fst (readData (files s)))
        (run_schedule example_writes [0, 0, 1, 0] (idle example_fs)) = Some (Inl SyntaxError)"
    by (simp only: b) (simp add: readData_cases)
  have 3: "map_option (\<lambda>s. (phase s 0, phase s 1, files s DATA_FILE))
        (run_schedule example_writes [0, 0, 1, 0, 1, 1] (idle example_fs))
       = Some (Finished, Failed ENOENT, Some (Json (example_writes 1)))"
    by (simp only: c) simp
  show ?thesis using a 1 2 3 by blast
qed

text \<open>Where the data file exists and neither \<^verbatim>\<open>fs.mkdir\<close> nor \<^verbatim>\<open>fs.access\<close> fails,
  \<^verbatim>\<open>initializeData\<close> changes nothing, and a second call after a successful one changes
  nothing either.\<close>

lemma initializeData_keeps_existing_file:
  "fs DATA_FILE \<noteq> None \<Longrightarrow> initializeData No_probe_fault randomBytes fault fs = (Inr (), fs)"
  by (auto simp: initializeData_def fs_mkdir_def fs_access_def)

lemma initializeData_twice:
  assumes "fst (initializeData No_probe_fault r1 f1 fs) = Inr ()"
  shows "initializeData No_probe_fault r2 f2 (snd (initializeData No_probe_fault r1 f1 fs))
           = (Inr (), snd (initializeData No_probe_fault r1 f1 fs))"
proof -
  have "snd (initializeData No_probe_fault r1 f1 fs) DATA_FILE \<noteq> None"
  proof (cases "fs DATA_FILE")
    case None
    then show ?thesis using assms
      by (cases f1)
        (simp_all add: initializeData_def fs_mkdir_def fs_access_def writeData_cases)
  next
    case (Some c)
    then show ?thesis by (simp add: initializeData_keeps_existing_file)
  qed
  then show ?thesis by (rule initializeData_keeps_existing_file)
qed

text \<open>
  Claim C6. The claim asks that \<^verbatim>\<open>initializeData\<close> leaves every document that exists
  untouched. The source takes every error of \<^verbatim>\<open>fs.mkdir\<close> and \<^verbatim>\<open>fs.access\<close> for the
  absence of the file: when one of them fails for another reason while the data file
  holds a document with a user and a secret, and the write that follows succeeds, the
  document is replaced by the defaults, the secret is a new one and the user is gone.
\<close>

theorem initializeData_overwrites_after_probe_error:
  "fst (readData example_fs) = Inr example_document
   \<and> fst (initializeData Access_fails (replicate 32 0xab) No_fault example_fs) = Inr ()
   \<and> fst (readData (snd (initializeData Access_fails (replicate 32 0xab) No_fault example_fs)))
       = Inr (DEFAULT_DATA_with ''abababababababababababababababababababababababababababababababab'')
   \<and> fst (readData (snd (initializeData Mkdir_fails (replicate 32 0xab) No_fault example_fs)))
       = Inr (DEFAULT_DATA_with ''abababababababababababababababababababababababababababababababab'')
   \<and> sessionSecret (DEFAULT_DATA_with ''abababababababababababababababababababababababababababababababab'') \<noteq> sessionSecret example_document
   \<and> user (DEFAULT_DATA_with ''abababababababababababababababababababababababababababababababab'') = None
   \<and> user example_document \<noteq> None"
proof -
  have h: "hex (replicate 32 (0xab :: byte)) = ''abababababababababababababababababababababababababababababababab''"
    by (simp add: hex_def hex_byte_def hexdigit_def replicate_numeral)
  show ?thesis
    by (simp add: h initializeData_def fs_mkdir_def fs_access_def writeData_cases readData_cases
        example_fs_def example_document_def DEFAULT_DATA_with_def)
qed

section \<open>The authentication gate\<close>

lemma isAuthenticated_cases:
  "isAuthenticated now req fs =
     (case parseCookies req COOKIE_NAME of
        None \<Rightarrow> (Inr (Boolean False), fs)
      | Some signedSession \<Rightarrow>
          if signedSession = [] then (Inr (Boolean False), fs)
          else (case fs DATA_FILE of
             None \<Rightarrow> (Inl ENOENT, fs)
           | Some (Torn d n) \<Rightarrow> (Inl SyntaxError, fs)
           | Some (Json d) \<Rightarrow>
              (case verifyCookie signedSession (sessionSecret d) of
                 None \<Rightarrow> (Inr (Boolean False), fs)
               | Some token \<Rightarrow>
                   if token = [] then (Inr (Boolean False), fs)
                   else (case map_of (sessions d) token of
                          None \<Rightarrow> (Inr Undefined, fs)
                        | Some s \<Rightarrow> (Inr (Boolean (isSessionValid now (Some s))), fs)))))"
  by (simp add: isAuthenticated_def getSessionSecret_def getSessions_def readData_cases
      split: option.splits file_content.splits)


lemma verifyCookie_Nil: "verifyCookie [] secret = None"
  by (simp add: verifyCookie_def)

lemma isAuthenticated_truthy_iff:
  "(\<exists>v. fst (isAuthenticated now req fs) = Inr v \<and> truthy v) \<longleftrightarrow>
     (\<exists>signed d token s.
        parseCookies req COOKIE_NAME = Some signed
        \<and> fs DATA_FILE = Some (Json d)
        \<and> verifyCookie signed (sessionSecret d) = Some token
        \<and> token \<noteq> []
        \<and> map_of (sessions d) token = Some s
        \<and> isSessionValid now (Some s))"
proof
  assume "\<exists>v. fst (isAuthenticated now req fs) = Inr v \<and> truthy v"
  then obtain v where v: "fst (isAuthenticated now req fs) = Inr v" "truthy v" by blast
  then show "\<exists>signed d token s.
        parseCookies req COOKIE_NAME = Some signed
        \<and> fs DATA_FILE = Some (Json d)
        \<and> verifyCookie signed (sessionSecret d) = Some token
        \<and> token \<noteq> []
        \<and> map_of (sessions d) token = Some s
        \<and> isSessionValid now (Some s)"
    by (auto simp: isAuthenticated_cases split: option.splits if_splits file_content.splits)
next
  assume "\<exists>signed d token s.
        parseCookies req COOKIE_NAME = Some signed
        \<and> fs DATA_FILE = Some (Json d)
        \<and> verifyCookie signed (sessionSecret d) = Some token
        \<and> token \<noteq> []
        \<and> map_of (sessions d) token = Some s
        \<and> isSessionValid now (Some s)"
  then obtain signed d token s where h:
    "parseCookies req COOKIE_NAME = Some signed" "fs DATA_FILE = Some (Json d)"
    "verifyCookie signed (sessionSecret d) = Some token" "token \<noteq> []"
    "map_of (sessions d) token = Some s" "isSessionValid now (Some s)"
    by blast
  from h(3) have "signed \<noteq> []" using verifyCookie_Nil by auto
  with h have "fst (isAuthenticated now req fs) = Inr (Boolean True)"
    by (simp add: isAuthenticated_cases)
  then show "\<exists>v. fst (isAuthenticated now req fs) = Inr v \<and> truthy v" by simp
qed

lemma isAuthenticated_error_iff:
  "fst (isAuthenticated now req fs) = Inl e \<longleftrightarrow>
     (\<exists>signed. parseCookies req COOKIE_NAME = Some signed \<and> signed \<noteq> [])
     \<and> fst (readData fs) = Inl e"
  by (auto simp: isAuthenticated_cases readData_cases
      split: option.splits if_splits file_content.splits)

lemma parseCookies_example:
  "parseCookies example_request COOKIE_NAME
     = Some ''tok123.572db504aac38c25075e6a8b2bcd93f460783f2a79890940ef3b271491ae69a8''"
  by (simp add: parseCookies_def example_request_def trim_def is_space_def COOKIE_NAME_def)

lemma verifyCookie_example:
  "verifyCookie ''tok123.572db504aac38c25075e6a8b2bcd93f460783f2a79890940ef3b271491ae69a8''
     ''secretA'' = Some ''tok123''"
  by (simp add: verifyCookie_def hmac_secretA_tok123)

lemma isAuthenticated_example:
  "isAuthenticated 1700000000001 example_request example_fs = (Inr (Boolean True), example_fs)"
  by (simp add: isAuthenticated_cases parseCookies_example verifyCookie_example
      example_fs_def example_document_def isSessionValid_def)

text \<open>
  Claim C1 as the spec states it asks for the verdict \<^verbatim>\<open>false\<close> on a storage read
  failure. \<^verbatim>\<open>isAuthenticated\<close> has no handler: with a cookie in the request and no data
  file, the error of \<^verbatim>\<open>readData\<close> leaves \<^verbatim>\<open>isAuthenticated\<close>, and
  \<^verbatim>\<open>handleResetCredentials\<close> with it.
\<close>

theorem isAuthenticated_storage_failure_counterexample:
  "fst (isAuthenticated 1700000000001 example_request Map.empty) = Inl ENOENT
   \<and> fst (handleResetCredentials No_fault No_fault 1700000000001 example_request Map.empty)
       = Inl ENOENT"
proof -
  have c: "parseCookies example_request COOKIE_NAME
      = Some ''tok123.572db504aac38c25075e6a8b2bcd93f460783f2a79890940ef3b271491ae69a8''"
    by (simp add: parseCookies_def example_request_def trim_def is_space_def COOKIE_NAME_def)
  have "isAuthenticated 1700000000001 example_request Map.empty = (Inl ENOENT, Map.empty)"
    by (simp add: isAuthenticated_cases c)
  then show ?thesis by (simp add: handleResetCredentials_def)
qed

text \<open>
  Claim C1, amended. Without a session cookie, or with an empty one, the verdict is
  \<^verbatim>\<open>false\<close> and the storage is not read. With a cookie, \<^verbatim>\<open>isAuthenticated\<close> returns a
  verdict whenever the data file can be read and parsed, and a storage read failure is
  not turned into \<^verbatim>\<open>false\<close>: that error, and no other, leaves \<^verbatim>\<open>isAuthenticated\<close>, and
  \<^verbatim>\<open>handleResetCredentials\<close> passes it on and writes nothing. The verdict is truthy only
  if the cookie verifies under the stored secret, its token has an entry in the sessions
  object and the clock is strictly before that entry's \<^verbatim>\<open>expiresAt\<close>: no error
  authenticates.
\<close>

theorem isAuthenticated_fails_closed_or_propagates:
  "(parseCookies req COOKIE_NAME = None \<or> parseCookies req COOKIE_NAME = Some [] \<longrightarrow>
        isAuthenticated now req fs = (Inr (Boolean False), fs))
   \<and> (fst (readData fs) = Inr d \<longrightarrow> (\<exists>v. fst (isAuthenticated now req fs) = Inr v))
   \<and> (fst (isAuthenticated now req fs) = Inl e \<longleftrightarrow>
        (\<exists>signed. parseCookies req COOKIE_NAME = Some signed \<and> signed \<noteq> [])
        \<and> fst (readData fs) = Inl e)
   \<and> (fst (isAuthenticated now req fs) = Inl e \<longrightarrow>
        handleResetCredentials fault1 fault2 now req fs = (Inl e, fs))
   \<and> (fst (isAuthenticated now req fs) = Inr v \<and> truthy v \<longrightarrow>
        (\<exists>signed d token s.
           parseCookies req COOKIE_NAME = Some signed
           \<and> fst (readData fs) = Inr d
           \<and> verifyCookie signed (sessionSecret d) = Some token
           \<and> map_of (sessions d) token = Some s
           \<and> now < expiresAt s))"
proof -
  have 0: "isAuthenticated now req fs = (Inr (Boolean False), fs)"
    if "parseCookies req COOKIE_NAME = None \<or> parseCookies req COOKIE_NAME = Some []"
    using that by (auto simp: isAuthenticated_cases)
  have 1: "\<exists>v. fst (isAuthenticated now req fs) = Inr v" if "fst (readData fs) = Inr d"
  proof (cases "fst (isAuthenticated now req fs)")
    case (Inl e')
    then have "fst (readData fs) = Inl e'" by (simp add: isAuthenticated_error_iff)
    with that show ?thesis by simp
  next
    case (Inr v)
    then show ?thesis by simp
  qed
  have 2: "fst (isAuthenticated now req fs) = Inl e \<longleftrightarrow>
        (\<exists>signed. parseCookies req COOKIE_NAME = Some signed \<and> signed \<noteq> [])
        \<and> fst (readData fs) = Inl e"
    by (rule isAuthenticated_error_iff)
  have 3: "handleResetCredentials fault1 fault2 now req fs = (Inl e, fs)"
    if h: "fst (isAuthenticated now req fs) = Inl e"
  proof -
    have "snd (isAuthenticated now req fs) = fs"
      by (simp add: isAuthenticated_cases split: option.splits file_content.splits)
    with h have "isAuthenticated now req fs = (Inl e, fs)"
      by (metis prod.collapse)
    then show ?thesis by (simp add: handleResetCredentials_def)
  qed
  have 4: "\<exists>signed d token s.
           parseCookies req COOKIE_NAME = Some signed
           \<and> fst (readData fs) = Inr d
           \<and> verifyCookie signed (sessionSecret d) = Some token
           \<and> map_of (sessions d) token = Some s
           \<and> now < expiresAt s"
    if h: "fst (isAuthenticated now req fs) = Inr v \<and> truthy v"
  proof -
    from h have "\<exists>v. fst (isAuthenticated now req fs) = Inr v \<and> truthy v" by blast
    then obtain signed d token s where f:
      "parseCookies req COOKIE_NAME = Some signed" "fs DATA_FILE = Some (Json d)"
      "verifyCookie signed (sessionSecret d) = Some token"
      "map_of (sessions d) token = Some s" "isSessionValid now (Some s)"
      unfolding isAuthenticated_truthy_iff by blast
    from f(5) have "now < expiresAt s"
      by (simp add: isSessionValid_def split: if_splits)
    moreover from f(2) have "fst (readData fs) = Inr d" by (simp add: readData_Inr_iff)
    ultimately show ?thesis using f by blast
  qed
  show ?thesis using 0 1 2 3 4 by blast
qed

theorem isAuthenticated_fails_closed_or_propagates_witness:
  "parseCookies request_without_cookie COOKIE_NAME = None
   \<and> isAuthenticated 1700000000001 request_without_cookie Map.empty
       = (Inr (Boolean False), Map.empty)
   \<and> fst (readData example_fs) = Inr example_document
   \<and> fst (isAuthenticated 1700000000001 example_request example_fs) = Inr (Boolean True)
   \<and> truthy (Boolean True)
   \<and> (\<exists>signed d token s.
         parseCookies example_request COOKIE_NAME = Some signed
         \<and> fst (readData example_fs) = Inr d
         \<and> verifyCookie signed (sessionSecret d) = Some token
         \<and> map_of (sessions d) token = Some s
         \<and> 1700000000001 < expiresAt s)
   \<and> (\<exists>signed. parseCookies example_request COOKIE_NAME = Some signed \<and> signed \<noteq> [])
   \<and> fst (readData Map.empty) = Inl ENOENT
   \<and> fst (isAuthenticated 1700000000001 example_request Map.empty) = Inl ENOENT
   \<and> handleResetCredentials No_fault No_fault 1700000000001 example_request Map.empty
       = (Inl ENOENT, Map.empty)"
proof -
  have n: "parseCookies request_without_cookie COOKIE_NAME = None"
    by (simp add: parseCookies_def request_without_cookie_def)
  have a: "fst (readData example_fs) = Inr example_document"
    by (simp add: readData_cases example_fs_def)
  have b: "fst (isAuthenticated 1700000000001 example_request example_fs) = Inr (Boolean True)"
    by (simp add: isAuthenticated_example)
  have c: "\<exists>signed. parseCookies example_request COOKIE_NAME = Some signed \<and> signed \<noteq> []"
    by (simp add: parseCookies_example)
  have r: "fst (readData Map.empty) = Inl ENOENT"
    by (simp add: readData_cases)
  show ?thesis
    using n a b c r
      isAuthenticated_fails_closed_or_propagates
        [of request_without_cookie 1700000000001 Map.empty example_document ENOENT
            No_fault No_fault "Boolean True"]
      isAuthenticated_fails_closed_or_propagates
        [of example_request 1700000000001 example_fs example_document ENOENT
            No_fault No_fault "Boolean True"]
      isAuthenticated_fails_closed_or_propagates
        [of example_request 1700000000001 Map.empty example_document ENOENT
            No_fault No_fault "Boolean True"]
    by simp
qed




text \<open>The entry of the example expires at 1700604800000: checked at that instant it is
  invalid, and it stays in the file.\<close>

lemma expired_session_is_kept:
  "isAuthenticated 1700604800000 example_request example_fs = (Inr (Boolean False), example_fs)"
  by (simp add: isAuthenticated_cases parseCookies_example verifyCookie_example
      example_fs_def example_document_def isSessionValid_def)

text \<open>
  Claim C9. \<^verbatim>\<open>isAuthenticated\<close> is a pure read: whatever the request and the stored
  document, the file system after the call is the one before it, so every session
  entry, expired or not, is still in the sessions object.
\<close>

theorem isAuthenticated_pure_read:
  "snd (isAuthenticated now req fs) = fs
   \<and> getSessions (snd (isAuthenticated now req fs)) = getSessions fs"
proof -
  have "snd (isAuthenticated now req fs) = fs"
    by (simp add: isAuthenticated_cases split: option.splits file_content.splits)
  then show ?thesis by simp
qed

end
